theory Spec2Isabelle
  imports Main
begin

section \<open>Python values, dictionaries and exceptions\<close>

text \<open>
  The settings dictionary holds what \<^verbatim>\<open>json.load\<close> returns and what the user interface
  stores: \<^verbatim>\<open>None\<close>, booleans, integers, strings, lists and dictionaries with string keys.
  JSON numbers with a fraction or an exponent (Python floats) are outside this value type.
  A dictionary is an association list in insertion order, as Python dictionaries are.
\<close>

datatype pyval =
    PNone
  | PBool bool
  | PInt int
  | PStr string
  | PList "pyval list"
  | PDict "(string \<times> pyval) list"

type_synonym dict = "(string \<times> pyval) list"

text \<open>\<^verbatim>\<open>d.get(key, default)\<close>.\<close>

definition dict_get :: "dict \<Rightarrow> string \<Rightarrow> pyval \<Rightarrow> pyval" where
  "dict_get d key dflt = (case map_of d key of None \<Rightarrow> dflt | Some v \<Rightarrow> v)"

text \<open>\<^verbatim>\<open>d[key] = value\<close>: an existing key keeps its position, a new key goes last.\<close>

fun dict_set :: "dict \<Rightarrow> string \<Rightarrow> pyval \<Rightarrow> dict" where
  "dict_set [] key v = [(key, v)]"
| "dict_set ((k, w) # d) key v =
     (if k = key then (key, v) # d else (k, w) # dict_set d key v)"

text \<open>\<^verbatim>\<open>{**a, **b}\<close>: the items of \<open>b\<close> are stored into a copy of \<open>a\<close>, in order.\<close>

definition dict_merge :: "dict \<Rightarrow> dict \<Rightarrow> dict" where
  "dict_merge a b = fold (\<lambda>(k, v) d. dict_set d k v) b a"

text \<open>The truth value of an object in a condition (\<^verbatim>\<open>if x:\<close>).\<close>

fun truthy :: "pyval \<Rightarrow> bool" where
  "truthy PNone = False"
| "truthy (PBool b) = b"
| "truthy (PInt i) = (i \<noteq> 0)"
| "truthy (PStr s) = (s \<noteq> [])"
| "truthy (PList xs) = (xs \<noteq> [])"
| "truthy (PDict kvs) = (kvs \<noteq> [])"

text \<open>
  The exception classes that the modelled code can meet. \<^verbatim>\<open>IOError\<close> is an alias of
  \<^verbatim>\<open>OSError\<close>; \<^verbatim>\<open>JSONDecodeError\<close> and \<^verbatim>\<open>UnicodeDecodeError\<close> are two unrelated
  subclasses of \<^verbatim>\<open>ValueError\<close>.
\<close>

datatype exn =
    OSError
  | JSONDecodeError
  | UnicodeDecodeError
  | ValueError
  | TypeError
  | ZeroDivisionError

text \<open>\<^verbatim>\<open>m % x\<close> for an integer \<open>m\<close>: Python's remainder has the sign of the divisor, as
  \<open>mod\<close> on \<open>int\<close> has; a boolean divisor counts as 0 or 1.\<close>

fun py_mod :: "int \<Rightarrow> pyval \<Rightarrow> exn + int" where
  "py_mod m (PInt i) = (if i = 0 then Inl ZeroDivisionError else Inr (m mod i))"
| "py_mod m (PBool b) = (if b then Inr (m mod 1) else Inl ZeroDivisionError)"
| "py_mod m PNone = Inl TypeError"
| "py_mod m (PStr s) = Inl TypeError"
| "py_mod m (PList xs) = Inl TypeError"
| "py_mod m (PDict kvs) = Inl TypeError"

section \<open>Formatting and paths\<close>

definition digit_char :: "nat \<Rightarrow> char" where
  "digit_char n = ''0123456789'' ! (n mod 10)"

fun digits :: "nat \<Rightarrow> string" where
  "digits n = (if n < 10 then [digit_char n] else digits (n div 10) @ [digit_char (n mod 10)])"

declare digits.simps [simp del]

text \<open>\<^verbatim>\<open>f"{i:02d}"\<close>: the sign first, then the decimal digits padded with zeros to a total
  width of two.\<close>

definition fmt02 :: "int \<Rightarrow> string" where
  "fmt02 i =
     (if i < 0 then CHR ''-'' # digits (nat (- i))
      else replicate (2 - length (digits (nat i))) CHR ''0'' @ digits (nat i))"

text \<open>
  A path is its parent segments and its name. \<open>joinpath\<close> is the operator \<^verbatim>\<open>/\<close> with a string
  on the right; each joined string is kept as one segment.
\<close>

record path =
  parent :: "string list"
  name :: string

definition joinpath :: "path \<Rightarrow> string \<Rightarrow> path" where
  "joinpath p seg = \<lparr>parent = parent p @ [name p], name = seg\<rparr>"

text \<open>\<^verbatim>\<open>name.rfind('.')\<close>: the index of the last dot, or -1.\<close>

definition rfind_dot :: "string \<Rightarrow> int" where
  "rfind_dot s =
     (if CHR ''.'' \<in> set s
      then int (length s) - 1 - int (length (takeWhile (\<lambda>c. c \<noteq> CHR ''.'') (rev s)))
      else - 1)"

text \<open>\<^verbatim>\<open>PurePath.suffix\<close>: the last dot and what follows it, unless the dot is the first or
  the last character of the name.\<close>

definition suffix_of :: "string \<Rightarrow> string" where
  "suffix_of nm =
     (let i = rfind_dot nm
      in if 0 < i \<and> i < int (length nm) - 1 then drop (nat i) nm else [])"

text \<open>\<^verbatim>\<open>PurePath.with_suffix\<close>: \<^verbatim>\<open>ValueError\<close> on an empty name; otherwise the old suffix,
  if any, is replaced by the new one.\<close>

definition with_suffix :: "path \<Rightarrow> string \<Rightarrow> exn + path" where
  "with_suffix p suffix =
     (if name p = [] then Inl ValueError
      else let old = suffix_of (name p)
           in Inr (p\<lparr>name := take (length (name p) - length old) (name p) @ suffix\<rparr>))"

section \<open>Effects\<close>

datatype level = INFO | WARNING | ERROR

text \<open>
  A log record is its level and its message; a message is kept as its template and the
  values formatted into it. \<open>Play p\<close> is the call \<^verbatim>\<open>player.play(p)\<close> on the audio player.
\<close>

datatype message =
    Config_not_found
  | Config_loaded
  | Load_failed exn
  | Config_saved
  | Save_failed exn
  | Announcing string string string bool
  | Audio_not_found path path

datatype event = Log level message | Play path

section \<open>config.py: ConfigManager\<close>

text \<open>
  The settings file as \<^verbatim>\<open>load\<close> finds it: absent (\<^verbatim>\<open>config_path.exists()\<close> is false);
  or opening and reading it with \<^verbatim>\<open>json.load\<close> raises an exception (\<^verbatim>\<open>OSError\<close> when the
  file cannot be opened or read, \<^verbatim>\<open>UnicodeDecodeError\<close> when its bytes are not UTF-8,
  \<^verbatim>\<open>JSONDecodeError\<close> when its text is not JSON); or \<^verbatim>\<open>json.load\<close> returns a value. For a
  JSON object that value is written \<open>PDict\<close> of the members in file order, and storing
  them in that order gives the dictionary that Python builds (a repeated key keeps its
  last value). \<^verbatim>\<open>json.dump\<close> writes a text that \<^verbatim>\<open>json.load\<close> reads back as the value
  dumped.
\<close>

datatype file_state = Absent | Raises exn | Holds pyval

text \<open>
  What the write in \<^verbatim>\<open>save\<close> (\<^verbatim>\<open>mkdir\<close>, \<^verbatim>\<open>open\<close>, \<^verbatim>\<open>json.dump\<close>) does: it succeeds, or
  it raises an exception and leaves the file in some state.
\<close>

datatype write_behaviour = Writes | Write_raises exn file_state

record disk =
  config_file :: file_state
  writing :: write_behaviour

record config_manager =
  settings :: dict

definition DEFAULT_SETTINGS :: dict where
  "DEFAULT_SETTINGS =
     [(''language'', PStr ''en''), (''interval'', PInt 60), (''muted'', PBool False)]"

text \<open>
  \<^verbatim>\<open>save(settings=None)\<close>: the argument, when given, becomes the in-memory record before
  the write is tried; \<^verbatim>\<open>except IOError\<close> catches \<^verbatim>\<open>OSError\<close> only.
\<close>

definition save ::
  "dict option \<Rightarrow> config_manager \<Rightarrow> disk \<Rightarrow> (exn + bool) \<times> config_manager \<times> disk \<times> event list"
  where
  "save arg cm dk =
     (let cm1 = (case arg of None \<Rightarrow> cm | Some s \<Rightarrow> cm\<lparr>settings := s\<rparr>)
      in case writing dk of
           Writes \<Rightarrow>
             (Inr True, cm1, dk\<lparr>config_file := Holds (PDict (settings cm1))\<rparr>, [Log INFO Config_saved])
         | Write_raises err left \<Rightarrow>
             if err = OSError
             then (Inr False, cm1, dk\<lparr>config_file := left\<rparr>, [Log ERROR (Save_failed err)])
             else (Inl err, cm1, dk\<lparr>config_file := left\<rparr>, []))"

text \<open>The two places where \<^verbatim>\<open>load\<close> falls back on a copy of the defaults and saves it.\<close>

definition reset_to_defaults ::
  "message \<Rightarrow> level \<Rightarrow> config_manager \<Rightarrow> disk \<Rightarrow>
   (exn + dict) \<times> config_manager \<times> disk \<times> event list" where
  "reset_to_defaults msg lvl cm dk =
     (let cm1 = cm\<lparr>settings := DEFAULT_SETTINGS\<rparr>
      in case save (Some (settings cm1)) cm1 dk of
           (Inl err, cm2, dk2, evs) \<Rightarrow> (Inl err, cm2, dk2, Log lvl msg # evs)
         | (Inr ok, cm2, dk2, evs) \<Rightarrow> (Inr (settings cm2), cm2, dk2, Log lvl msg # evs))"

text \<open>
  \<^verbatim>\<open>load\<close>: \<^verbatim>\<open>except (json.JSONDecodeError, IOError)\<close> catches those two classes and lets
  every other exception through; \<^verbatim>\<open>{**DEFAULT_SETTINGS, **loaded}\<close> raises \<^verbatim>\<open>TypeError\<close> when
  \<^verbatim>\<open>loaded\<close> is not a dictionary.
\<close>

definition load ::
  "config_manager \<Rightarrow> disk \<Rightarrow> (exn + dict) \<times> config_manager \<times> disk \<times> event list" where
  "load cm dk =
     (case config_file dk of
        Absent \<Rightarrow> reset_to_defaults Config_not_found INFO cm dk
      | Holds loaded \<Rightarrow>
          (case loaded of
             PDict items \<Rightarrow>
               (let cm1 = cm\<lparr>settings := dict_merge DEFAULT_SETTINGS items\<rparr>
                in (Inr (settings cm1), cm1, dk, [Log INFO Config_loaded]))
           | _ \<Rightarrow> (Inl TypeError, cm, dk, []))
      | Raises err \<Rightarrow>
          if err = JSONDecodeError \<or> err = OSError
          then reset_to_defaults (Load_failed err) WARNING cm dk
          else (Inl err, cm, dk, []))"

definition get_setting :: "config_manager \<Rightarrow> string \<Rightarrow> pyval \<Rightarrow> pyval" where
  "get_setting cm key dflt = dict_get (settings cm) key dflt"

definition set_setting ::
  "string \<Rightarrow> pyval \<Rightarrow> bool \<Rightarrow> config_manager \<Rightarrow> disk \<Rightarrow>
   (exn + unit) \<times> config_manager \<times> disk \<times> event list" where
  "set_setting key v auto_save cm dk =
     (let cm1 = cm\<lparr>settings := dict_set (settings cm) key v\<rparr>
      in if auto_save
         then (case save None cm1 dk of
                 (Inl err, cm2, dk2, evs) \<Rightarrow> (Inl err, cm2, dk2, evs)
               | (Inr ok, cm2, dk2, evs) \<Rightarrow> (Inr (), cm2, dk2, evs))
         else (Inr (), cm1, dk, []))"

section \<open>scheduler.py: TimeAnnouncer\<close>

text \<open>
  What an announcer reads from outside itself: its \<^verbatim>\<open>ConfigManager\<close>, which files exist, and the assets directory.
\<close>

record env =
  config :: config_manager
  file_exists :: "path \<Rightarrow> bool"
  assets_dir :: path

record announcer =
  last_played_minute :: int
  last_played_hour :: int

text \<open>The hour and minute of \<^verbatim>\<open>datetime.now()\<close>.\<close>

record clock =
  hour :: int
  minute :: int

definition announcer_init :: announcer where
  "announcer_init = \<lparr>last_played_minute = - 1, last_played_hour = - 1\<rparr>"

definition already_played :: "announcer \<Rightarrow> int \<Rightarrow> int \<Rightarrow> bool" where
  "already_played a h m = (last_played_hour a = h \<and> last_played_minute a = m)"

text \<open>The local variables \<^verbatim>\<open>hour_12\<close> and \<^verbatim>\<open>filename\<close> of \<^verbatim>\<open>_play_time_audio\<close>.\<close>

definition hour_12 :: "int \<Rightarrow> int" where
  "hour_12 h = (if h mod 12 = 0 then 12 else h mod 12)"

definition filename :: "int \<Rightarrow> int \<Rightarrow> string" where
  "filename h m = fmt02 (hour_12 h) @ ''_'' @ fmt02 m @ ''.ogg''"

definition play_time_audio :: "env \<Rightarrow> int \<Rightarrow> int \<Rightarrow> (exn + unit) \<times> event list" where
  "play_time_audio e h m =
     (case get_setting (config e) ''language'' (PStr ''en'') of
        PStr language \<Rightarrow>
          (let audio_path = joinpath (joinpath (joinpath (assets_dir e) ''audio'') language)
                              (filename h m)
           in if file_exists e audio_path
              then (Inr (),
                    [Log INFO (Announcing (fmt02 (hour_12 h)) (fmt02 m) language False),
                     Play audio_path])
              else (case with_suffix audio_path ''.mp3'' of
                      Inl err \<Rightarrow> (Inl err, [])
                    | Inr audio_path_mp3 \<Rightarrow>
                        if file_exists e audio_path_mp3
                        then (Inr (),
                              [Log INFO (Announcing (fmt02 (hour_12 h)) (fmt02 m) language True),
                               Play audio_path_mp3])
                        else (Inr (),
                              [Log WARNING (Audio_not_found audio_path audio_path_mp3)])))
      | _ \<Rightarrow> (Inl TypeError, []))"

text \<open>
  \<^verbatim>\<open>check_and_announce\<close> returns the value or the exception of the call, the announcer
  after it and the events of the call. The debounce fields are assigned before
  \<^verbatim>\<open>_play_time_audio\<close> runs, so they keep the new time when that call raises.
\<close>

definition check_and_announce ::
  "env \<Rightarrow> clock \<Rightarrow> announcer \<Rightarrow> (exn + bool) \<times> announcer \<times> event list" where
  "check_and_announce e now a =
     (if truthy (get_setting (config e) ''muted'' PNone) then (Inr True, a, [])
      else
        let current_hour = hour now;
            current_minute = minute now;
            interval = get_setting (config e) ''interval'' (PInt 60)
        in case py_mod current_minute interval of
             Inl err \<Rightarrow> (Inl err, a, [])
           | Inr r \<Rightarrow>
               if r = 0
               then
                 if \<not> already_played a current_hour current_minute
                 then
                   (let a' = a\<lparr>last_played_hour := current_hour,
                                last_played_minute := current_minute\<rparr>
                    in case play_time_audio e current_hour current_minute of
                         (Inl err, evs) \<Rightarrow> (Inl err, a', evs)
                       | (Inr u, evs) \<Rightarrow> (Inr True, a', evs))
                 else (Inr True, a, [])
               else (Inr True, a, []))"



section \<open>Observations\<close>

text \<open>The playback calls among the events of a call, in order.\<close>

fun played :: "event list \<Rightarrow> path list" where
  "played [] = []"
| "played (Play p # evs) = p # played evs"
| "played (Log l msg # evs) = played evs"

text \<open>
  The asset of a time in a language and a format: the path
  \<^verbatim>\<open><assets>/audio/<language>/<HH>_<MM><ext>\<close>, with the hour and the minute formatted as
  \<^verbatim>\<open>_play_time_audio\<close> formats them.
\<close>

definition asset :: "env \<Rightarrow> string \<Rightarrow> int \<Rightarrow> int \<Rightarrow> string \<Rightarrow> path" where
  "asset e language h m ext =
     \<lparr>parent = parent (assets_dir e) @ [name (assets_dir e), ''audio'', language],
      name = fmt02 (hour_12 h) @ ''_'' @ fmt02 m @ ext\<rparr>"



text \<open>
  The words of the specification for the asset name: the hour in 12-hour form (0 and 12
  map to 12, 13 to 23 map to 1 to 11) and a number zero-padded to two digits.
\<close>

definition twelve_hour :: "int \<Rightarrow> int" where
  "twelve_hour h = (if h = 0 \<or> h = 12 then 12 else if 13 \<le> h then h - 12 else h)"

definition zero_padded :: "int \<Rightarrow> string" where
  "zero_padded n = [digit_char (nat n div 10), digit_char (nat n mod 10)]"


definition every_file :: "path \<Rightarrow> bool" where
  "every_file p = True"


definition app_assets :: path where
  "app_assets = \<lparr>parent = [''app''], name = ''assets''\<rparr>"

definition app_env :: "dict \<Rightarrow> (path \<Rightarrow> bool) \<Rightarrow> env" where
  "app_env s ex = \<lparr>config = \<lparr>settings = s\<rparr>, file_exists = ex, assets_dir = app_assets\<rparr>"

definition at_time :: "int \<Rightarrow> int \<Rightarrow> clock" where
  "at_time h m = \<lparr>hour = h, minute = m\<rparr>"

section \<open>Lemmas\<close>

subsection \<open>Formatting\<close>

lemma fmt02_zero_padded:
  assumes "0 \<le> n" "n < 100"
  shows "fmt02 n = zero_padded n"
proof (cases "n < 10")
  case True
  with assms have "digits (nat n) = [digit_char (nat n)]" "nat n div 10 = 0" "nat n mod 10 = nat n"
    by (simp_all add: digits.simps)
  with assms show ?thesis
    by (simp add: fmt02_def zero_padded_def digit_char_def)
next
  case False
  with assms have d: "\<not> nat n < 10" "nat n div 10 < 10" by auto
  then have "digits (nat n) = [digit_char (nat n div 10), digit_char (nat n mod 10)]"
    by (simp add: digits.simps [of "nat n"] digits.simps [of "nat n div 10"])
  with assms show ?thesis
    by (simp add: fmt02_def zero_padded_def)
qed

lemma hour_12_twelve_hour:
  assumes "0 \<le> h" "h < 24"
  shows "hour_12 h = twelve_hour h"
  using assms unfolding hour_12_def twelve_hour_def by presburger

lemma hour_12_range: "1 \<le> hour_12 h \<and> hour_12 h \<le> 12"
  unfolding hour_12_def by presburger

lemma rfind_dot_append:
  assumes "CHR ''.'' \<notin> set ext"
  shows "rfind_dot (stem @ CHR ''.'' # ext) = int (length stem)"
proof -
  from assms have "takeWhile (\<lambda>c. c \<noteq> CHR ''.'') (rev ext) = rev ext"
    by (intro takeWhile_eq_all_conv [THEN iffD2]) auto
  then have "length (takeWhile (\<lambda>c. c \<noteq> CHR ''.'') (rev ext)) = length ext"
    by (simp only: length_rev)
  then show ?thesis
    by (simp add: rfind_dot_def takeWhile_tail)
qed

lemma suffix_of_append:
  assumes "CHR ''.'' \<notin> set ext" "ext \<noteq> []" "stem \<noteq> []"
  shows "suffix_of (stem @ CHR ''.'' # ext) = CHR ''.'' # ext"
  using assms by (simp add: suffix_of_def rfind_dot_append Let_def)

lemma with_suffix_ogg:
  assumes "stem \<noteq> []"
  shows "with_suffix \<lparr>parent = ps, name = stem @ ''.ogg''\<rparr> ''.mp3''
         = Inr \<lparr>parent = ps, name = stem @ ''.mp3''\<rparr>"
proof -
  have "suffix_of (stem @ ''.ogg'') = ''.ogg''"
    using suffix_of_append [of "''ogg''" stem] assms by simp
  then show ?thesis using assms by (simp add: with_suffix_def)
qed

subsection \<open>The play step\<close>

lemma audio_path_asset:
  "joinpath (joinpath (joinpath (assets_dir e) ''audio'') language) (filename h m)
   = asset e language h m ''.ogg''"
  by (simp add: joinpath_def asset_def filename_def)

lemma with_suffix_asset:
  "with_suffix (asset e language h m ''.ogg'') ''.mp3'' = Inr (asset e language h m ''.mp3'')"
  using with_suffix_ogg [of "fmt02 (hour_12 h) @ ''_'' @ fmt02 m"]
  by (simp add: asset_def)

lemma play_time_audio_string:
  assumes "get_setting (config e) ''language'' (PStr ''en'') = PStr language"
  shows "play_time_audio e h m =
    (if file_exists e (asset e language h m ''.ogg'')
     then (Inr (), [Log INFO (Announcing (fmt02 (hour_12 h)) (fmt02 m) language False),
                    Play (asset e language h m ''.ogg'')])
     else if file_exists e (asset e language h m ''.mp3'')
     then (Inr (), [Log INFO (Announcing (fmt02 (hour_12 h)) (fmt02 m) language True),
                    Play (asset e language h m ''.mp3'')])
     else (Inr (), [Log WARNING (Audio_not_found (asset e language h m ''.ogg'')
                                                 (asset e language h m ''.mp3''))]))"
  using assms
  by (simp add: play_time_audio_def audio_path_asset with_suffix_asset Let_def)

lemma play_time_audio_other:
  assumes "\<forall>language. get_setting (config e) ''language'' (PStr ''en'') \<noteq> PStr language"
  shows "play_time_audio e h m = (Inl TypeError, [])"
  using assms
  by (cases "get_setting (config e) ''language'' (PStr ''en'')")
     (simp_all add: play_time_audio_def)

lemma played_play_time_audio:
  "played (snd (play_time_audio e h m)) =
     (case get_setting (config e) ''language'' (PStr ''en'') of
        PStr language \<Rightarrow>
          if file_exists e (asset e language h m ''.ogg'') then [asset e language h m ''.ogg'']
          else if file_exists e (asset e language h m ''.mp3'') then [asset e language h m ''.mp3'']
          else []
      | _ \<Rightarrow> [])"
proof (cases "\<exists>language. get_setting (config e) ''language'' (PStr ''en'') = PStr language")
  case True
  then obtain language where l: "get_setting (config e) ''language'' (PStr ''en'') = PStr language"
    by blast
  show ?thesis by (simp add: play_time_audio_string [OF l] l)
next
  case False
  then have n: "\<forall>language. get_setting (config e) ''language'' (PStr ''en'') \<noteq> PStr language"
    by blast
  show ?thesis using n
    by (cases "get_setting (config e) ''language'' (PStr ''en'')")
       (simp_all add: play_time_audio_other [OF n])
qed


subsection \<open>The tick\<close>

lemma check_and_announce_muted:
  assumes "truthy (get_setting (config e) ''muted'' PNone)"
  shows "check_and_announce e now a = (Inr True, a, [])"
  using assms by (simp add: check_and_announce_def)




lemma hour_12_instances:
  "hour_12 0 = 12" "hour_12 12 = 12" "hour_12 13 = 1" "hour_12 23 = 11"
  by (simp_all add: hour_12_def)

section \<open>C3: the asset file name\<close>

text \<open>
  C3. For every hour from 0 to 23 and minute from 0 to 59, the file name that
  \<^verbatim>\<open>_play_time_audio\<close> builds is the zero-padded 12-hour hour, an underscore, the zero-padded
  minute and \<^verbatim>\<open>.ogg\<close>; every file handed to the player has that name, with \<^verbatim>\<open>.ogg\<close> or
  \<^verbatim>\<open>.mp3\<close>. Hours 0 and 12 give 12, 13 gives 1, 23 gives 11, and 13 to 23 give 1 to 11.
\<close>

theorem asset_filename:
  assumes "0 \<le> h" "h < 24" "0 \<le> m" "m < 60"
  shows "filename h m = zero_padded (twelve_hour h) @ ''_'' @ zero_padded m @ ''.ogg''
    \<and> (\<forall>p \<in> set (played (snd (play_time_audio e h m))).
          name p = zero_padded (twelve_hour h) @ ''_'' @ zero_padded m @ ''.ogg''
        \<or> name p = zero_padded (twelve_hour h) @ ''_'' @ zero_padded m @ ''.mp3'')
    \<and> hour_12 0 = 12 \<and> hour_12 12 = 12 \<and> hour_12 13 = 1 \<and> hour_12 23 = 11
    \<and> (13 \<le> h \<longrightarrow> hour_12 h = h - 12)"
proof -
  have hh: "fmt02 (hour_12 h) = zero_padded (twelve_hour h)"
    using fmt02_zero_padded [of "hour_12 h"] hour_12_range [of h] hour_12_twelve_hour [OF assms(1,2)]
    by simp
  have mm: "fmt02 m = zero_padded m"
    using fmt02_zero_padded assms(3,4) by simp
  have f: "filename h m = zero_padded (twelve_hour h) @ ''_'' @ zero_padded m @ ''.ogg''"
    by (simp add: filename_def hh mm)
  have p: "\<forall>p \<in> set (played (snd (play_time_audio e h m))).
          name p = zero_padded (twelve_hour h) @ ''_'' @ zero_padded m @ ''.ogg''
        \<or> name p = zero_padded (twelve_hour h) @ ''_'' @ zero_padded m @ ''.mp3''"
    by (auto simp add: played_play_time_audio asset_def hh mm split: pyval.split)
  have t: "13 \<le> h \<longrightarrow> hour_12 h = h - 12"
    using hour_12_twelve_hour [OF assms(1,2)] by (simp add: twelve_hour_def)
  from f p t hour_12_instances show ?thesis by simp
qed

theorem asset_filename_witness:
  "(0::int) \<le> 13 \<and> (13::int) < 24 \<and> (0::int) \<le> 15 \<and> (15::int) < 60
   \<and> filename 13 15 = ''01_15.ogg''
   \<and> played (snd (play_time_audio (app_env DEFAULT_SETTINGS every_file) 13 15))
       = [\<lparr>parent = [''app'', ''assets'', ''audio'', ''en''], name = ''01_15.ogg''\<rparr>]"
proof -
  have e: "played (snd (play_time_audio (app_env DEFAULT_SETTINGS every_file) 13 15))
       = [asset (app_env DEFAULT_SETTINGS every_file) ''en'' 13 15 ''.ogg'']"
    by (simp add: played_play_time_audio app_env_def get_setting_def dict_get_def
        DEFAULT_SETTINGS_def every_file_def)
  have z: "zero_padded (twelve_hour 13) = ''01''" "zero_padded 15 = ''15''"
    by (simp_all add: zero_padded_def twelve_hour_def digit_char_def)
  from asset_filename [of 13 15 "app_env DEFAULT_SETTINGS every_file"] e z
  show ?thesis
    by (simp add: asset_def app_env_def app_assets_def)
qed

section \<open>C4: primary format, fallback format, missing asset\<close>







section \<open>C5: muted\<close>

text \<open>
  C5. When the muted setting is true, \<^verbatim>\<open>check_and_announce\<close> at any time, also at a minute
  that matches the interval, makes no playback call (it has no events at all), leaves
  the last played hour and minute as they were, and returns \<^verbatim>\<open>True\<close>.
\<close>

theorem muted_tick:
  assumes "truthy (get_setting (config e) ''muted'' PNone)"
  shows "check_and_announce e now a = (Inr True, a, [])"
  using assms by (rule check_and_announce_muted)

theorem muted_tick_witness:
  "truthy (get_setting (config (app_env [(''interval'', PInt 60), (''muted'', PBool True)] every_file))
      ''muted'' PNone)
   \<and> check_and_announce (app_env [(''interval'', PInt 60), (''muted'', PBool True)] every_file)
        (at_time 14 0) announcer_init
      = (Inr True, announcer_init, [])"
proof -
  have m: "truthy (get_setting
      (config (app_env [(''interval'', PInt 60), (''muted'', PBool True)] every_file)) ''muted'' PNone)"
    by (simp add: app_env_def get_setting_def dict_get_def)
  from muted_tick [OF m] m show ?thesis by simp
qed

section \<open>C1: the interval decides\<close>








section \<open>C2: debounce\<close>











section \<open>C10: the forced announcement\<close>





section \<open>Dictionaries\<close>

lemma map_of_dict_set: "map_of (dict_set d key v) = (map_of d)(key \<mapsto> v)"
  by (induction d key v rule: dict_set.induct) auto

lemma map_of_dict_merge: "map_of (dict_merge a b) = map_of a ++ map_of (rev b)"
  unfolding dict_merge_def
proof (induction b arbitrary: a)
  case Nil
  show ?case by simp
next
  case (Cons kv b)
  obtain k v where kv: "kv = (k, v)" by (cases kv)
  have "map_of (fold (\<lambda>(k, v) d. dict_set d k v) b (dict_set a k v))
        = map_of (dict_set a k v) ++ map_of (rev b)"
    by (rule Cons.IH)
  then show ?case
    by (simp add: kv map_of_dict_set map_add_upd_left fun_eq_iff map_add_def split: option.split)
qed

lemma map_of_rev_distinct:
  assumes "distinct (map fst b)"
  shows "map_of (rev b) = map_of b"
  using assms
proof (induction b)
  case Nil
  show ?case by simp
next
  case (Cons kv b)
  obtain k v where kv: "kv = (k, v)" by (cases kv)
  from Cons.prems kv have notin: "k \<notin> fst ` set b" and d: "distinct (map fst b)" by auto
  from notin have "map_of b k = None" by (simp add: map_of_eq_None_iff)
  with Cons.IH [OF d] show ?case
    by (auto simp add: kv fun_eq_iff map_add_def split: option.split)
qed

lemma keys_dict_set: "fst ` set (dict_set d key v) = insert key (fst ` set d)"
  by (induction d key v rule: dict_set.induct) auto

lemma dict_set_distinct:
  "distinct (map fst d) \<Longrightarrow> distinct (map fst (dict_set d key v))"
proof (induction d key v rule: dict_set.induct)
  case (1 key v)
  show ?case by simp
next
  case (2 k w d key v)
  show ?case
  proof (cases "k = key")
    case True
    with 2 show ?thesis by simp
  next
    case False
    with 2 have "k \<notin> fst ` set (dict_set d key v)" by (simp add: keys_dict_set)
    with 2 False show ?thesis by simp
  qed
qed

lemma dict_set_same:
  "map_of d key = Some v \<Longrightarrow> dict_set d key v = d"
  by (induction d key v rule: dict_set.induct) (auto split: if_splits)

section \<open>Saving and loading\<close>

lemma save_writes:
  assumes "writing dk = Writes"
  shows "save (Some s) cm dk =
     (Inr True, cm\<lparr>settings := s\<rparr>, dk\<lparr>config_file := Holds (PDict s)\<rparr>, [Log INFO Config_saved])"
    and "save None cm dk =
     (Inr True, cm, dk\<lparr>config_file := Holds (PDict (settings cm))\<rparr>, [Log INFO Config_saved])"
  using assms by (simp_all add: save_def)

lemma save_os_error:
  assumes "writing dk = Write_raises OSError left"
  shows "save arg cm dk =
     (Inr False, (case arg of None \<Rightarrow> cm | Some s \<Rightarrow> cm\<lparr>settings := s\<rparr>),
      dk\<lparr>config_file := left\<rparr>, [Log ERROR (Save_failed OSError)])"
  using assms by (simp add: save_def)

lemma load_object:
  assumes "config_file dk = Holds (PDict items)"
  shows "load cm dk =
     (Inr (dict_merge DEFAULT_SETTINGS items), cm\<lparr>settings := dict_merge DEFAULT_SETTINGS items\<rparr>,
      dk, [Log INFO Config_loaded])"
  using assms by (simp add: load_def)

lemma reset_to_defaults_result:
  assumes "writing dk = Writes \<or> (\<exists>left. writing dk = Write_raises OSError left)"
  shows "fst (reset_to_defaults msg lvl cm dk) = Inr DEFAULT_SETTINGS
       \<and> settings (fst (snd (reset_to_defaults msg lvl cm dk))) = DEFAULT_SETTINGS"
  using assms by (auto simp add: reset_to_defaults_def save_def)

text \<open>
  The part of the corrupt-file recovery that the code does have: text that is not JSON
  and a file that cannot be opened or read give the defaults, as long as the write of the
  defaults succeeds or fails with an \<^verbatim>\<open>OSError\<close>.
\<close>

lemma load_corrupt_resets:
  assumes "config_file dk = Raises err"
    and "err = JSONDecodeError \<or> err = OSError"
    and "writing dk = Writes \<or> (\<exists>left. writing dk = Write_raises OSError left)"
  shows "fst (load cm dk) = Inr DEFAULT_SETTINGS
       \<and> settings (fst (snd (load cm dk))) = DEFAULT_SETTINGS"
  using assms(1,2) reset_to_defaults_result [OF assms(3)]
  by (auto simp add: load_def)

lemma dict_merge_covering:
  assumes "distinct (map fst r)"
    and "{''language'', ''interval'', ''muted''} \<subseteq> fst ` set r"
  shows "map_of (dict_merge DEFAULT_SETTINGS r) = map_of r"
proof
  fix key
  show "map_of (dict_merge DEFAULT_SETTINGS r) key = map_of r key"
  proof (cases "map_of r key")
    case None
    then have "key \<notin> fst ` set r" by (simp add: map_of_eq_None_iff)
    with assms(2) have "key \<noteq> ''language''" "key \<noteq> ''interval''" "key \<noteq> ''muted''" by auto
    then have "map_of DEFAULT_SETTINGS key = None" by (simp add: DEFAULT_SETTINGS_def)
    with None show ?thesis
      by (simp add: map_of_dict_merge map_of_rev_distinct [OF assms(1)] map_add_def)
  next
    case (Some v)
    then show ?thesis
      by (simp add: map_of_dict_merge map_of_rev_distinct [OF assms(1)] map_add_def)
  qed
qed

section \<open>C6: a corrupt settings file\<close>

text \<open>
  C6 says that \<^verbatim>\<open>load\<close> yields the defaults and does not raise for every file content that
  is not valid JSON. The code misses a case: when the bytes of the file are not UTF-8,
  reading it raises \<^verbatim>\<open>UnicodeDecodeError\<close>, which \<^verbatim>\<open>except (json.JSONDecodeError, IOError)\<close>
  does not catch, and \<^verbatim>\<open>load\<close> raises with the settings as they were.
\<close>

theorem load_undecodable:
  "load cm \<lparr>config_file = Raises UnicodeDecodeError, writing = w\<rparr> =
     (Inl UnicodeDecodeError, cm, \<lparr>config_file = Raises UnicodeDecodeError, writing = w\<rparr>, [])"
  by (simp add: load_def)

section \<open>C7: save, then load\<close>

text \<open>
  C7. When the write succeeds, saving the record language "bn", interval 30, muted true
  leaves that record in the file, and a load from the file afterwards, by any manager
  whatever it holds in memory (the saving one, or a new one after a restart), returns
  that record and keeps it in memory. More generally, for every record that holds the
  three known keys, the record loaded from the file after saving it is equal to it as a
  dictionary.
\<close>

theorem save_load_round_trip:
  assumes "writing dk = Writes"
  shows "(case save (Some [(''language'', PStr ''bn''), (''interval'', PInt 30),
                           (''muted'', PBool True)]) cm dk of
            (r, cm1, dk1, evs) \<Rightarrow>
              r = Inr True
              \<and> settings cm1 = [(''language'', PStr ''bn''), (''interval'', PInt 30),
                                 (''muted'', PBool True)]
              \<and> fst (load cm' dk1) = Inr [(''language'', PStr ''bn''), (''interval'', PInt 30),
                                          (''muted'', PBool True)]
              \<and> settings (fst (snd (load cm' dk1))) =
                  [(''language'', PStr ''bn''), (''interval'', PInt 30), (''muted'', PBool True)]
              \<and> fst (load cm1 dk1) = Inr [(''language'', PStr ''bn''), (''interval'', PInt 30),
                                          (''muted'', PBool True)]
              \<and> settings (fst (snd (load cm1 dk1))) =
                  [(''language'', PStr ''bn''), (''interval'', PInt 30), (''muted'', PBool True)])
       \<and> (distinct (map fst s) \<and> {''language'', ''interval'', ''muted''} \<subseteq> fst ` set s \<longrightarrow>
            (case save (Some s) cm dk of
               (r, cm1, dk1, evs) \<Rightarrow>
                 r = Inr True
                 \<and> (\<exists>loaded. fst (load cm' dk1) = Inr loaded
                       \<and> settings (fst (snd (load cm' dk1))) = loaded
                       \<and> map_of loaded = map_of s)
                 \<and> (\<exists>loaded. fst (load cm1 dk1) = Inr loaded \<and> map_of loaded = map_of s)))"
proof -
  have m: "dict_merge DEFAULT_SETTINGS
             [(''language'', PStr ''bn''), (''interval'', PInt 30), (''muted'', PBool True)]
           = [(''language'', PStr ''bn''), (''interval'', PInt 30), (''muted'', PBool True)]"
    by (simp add: dict_merge_def DEFAULT_SETTINGS_def)
  have one: "(case save (Some [(''language'', PStr ''bn''), (''interval'', PInt 30),
                           (''muted'', PBool True)]) cm dk of
            (r, cm1, dk1, evs) \<Rightarrow>
              r = Inr True
              \<and> settings cm1 = [(''language'', PStr ''bn''), (''interval'', PInt 30),
                                 (''muted'', PBool True)]
              \<and> fst (load cm' dk1) = Inr [(''language'', PStr ''bn''), (''interval'', PInt 30),
                                          (''muted'', PBool True)]
              \<and> settings (fst (snd (load cm' dk1))) =
                  [(''language'', PStr ''bn''), (''interval'', PInt 30), (''muted'', PBool True)]
              \<and> fst (load cm1 dk1) = Inr [(''language'', PStr ''bn''), (''interval'', PInt 30),
                                          (''muted'', PBool True)]
              \<and> settings (fst (snd (load cm1 dk1))) =
                  [(''language'', PStr ''bn''), (''interval'', PInt 30), (''muted'', PBool True)])"
    by (simp add: save_writes(1) [OF assms] load_object m)
  have gen: "distinct (map fst s) \<and> {''language'', ''interval'', ''muted''} \<subseteq> fst ` set s \<longrightarrow>
            (case save (Some s) cm dk of
               (r, cm1, dk1, evs) \<Rightarrow>
                 r = Inr True
                 \<and> (\<exists>loaded. fst (load cm' dk1) = Inr loaded
                       \<and> settings (fst (snd (load cm' dk1))) = loaded
                       \<and> map_of loaded = map_of s)
                 \<and> (\<exists>loaded. fst (load cm1 dk1) = Inr loaded \<and> map_of loaded = map_of s))"
    using dict_merge_covering [of s]
    by (simp add: save_writes(1) [OF assms] load_object)
  from one gen show ?thesis by blast
qed

text \<open>
  An instance: a manager holding the defaults saves the record to a disk without a
  settings file, and a new manager with nothing in memory loads it from the file.
\<close>

theorem save_load_round_trip_witness:
  "writing \<lparr>config_file = Absent, writing = Writes\<rparr> = Writes
   \<and> save (Some [(''language'', PStr ''bn''), (''interval'', PInt 30), (''muted'', PBool True)])
        \<lparr>settings = DEFAULT_SETTINGS\<rparr> \<lparr>config_file = Absent, writing = Writes\<rparr>
      = (Inr True,
         \<lparr>settings = [(''language'', PStr ''bn''), (''interval'', PInt 30), (''muted'', PBool True)]\<rparr>,
         \<lparr>config_file = Holds (PDict [(''language'', PStr ''bn''), (''interval'', PInt 30),
                                       (''muted'', PBool True)]),
          writing = Writes\<rparr>,
         [Log INFO Config_saved])
   \<and> fst (load \<lparr>settings = []\<rparr>
        \<lparr>config_file = Holds (PDict [(''language'', PStr ''bn''), (''interval'', PInt 30),
                                      (''muted'', PBool True)]),
         writing = Writes\<rparr>)
      = Inr [(''language'', PStr ''bn''), (''interval'', PInt 30), (''muted'', PBool True)]
   \<and> settings (fst (snd (load \<lparr>settings = []\<rparr>
        \<lparr>config_file = Holds (PDict [(''language'', PStr ''bn''), (''interval'', PInt 30),
                                      (''muted'', PBool True)]),
         writing = Writes\<rparr>)))
      = [(''language'', PStr ''bn''), (''interval'', PInt 30), (''muted'', PBool True)]"
proof -
  have w: "writing \<lparr>config_file = Absent, writing = Writes\<rparr> = Writes" by simp
  have s: "save (Some [(''language'', PStr ''bn''), (''interval'', PInt 30), (''muted'', PBool True)])
        \<lparr>settings = DEFAULT_SETTINGS\<rparr> \<lparr>config_file = Absent, writing = Writes\<rparr>
      = (Inr True,
         \<lparr>settings = [(''language'', PStr ''bn''), (''interval'', PInt 30), (''muted'', PBool True)]\<rparr>,
         \<lparr>config_file = Holds (PDict [(''language'', PStr ''bn''), (''interval'', PInt 30),
                                       (''muted'', PBool True)]),
          writing = Writes\<rparr>,
         [Log INFO Config_saved])"
    by (simp add: save_def)
  from save_load_round_trip [OF w, where cm = "\<lparr>settings = DEFAULT_SETTINGS\<rparr>"
      and cm' = "\<lparr>settings = []\<rparr>"
      and s = "[(''muted'', PBool True), (''language'', PStr ''bn''), (''interval'', PInt 30)]"]
  show ?thesis
    by (simp add: s)
qed

section \<open>C8: missing keys and unknown keys\<close>

lemma dict_get_map_of: "map_of d key = Some v \<Longrightarrow> dict_get d key dflt = v"
  by (simp add: dict_get_def)

lemma map_of_rev_None: "key \<notin> fst ` set items \<Longrightarrow> map_of (rev items) key = None"
  by (simp add: map_of_eq_None_iff)

lemma merged_missing:
  assumes "key \<notin> fst ` set items"
  shows "map_of (dict_merge DEFAULT_SETTINGS items) key = map_of DEFAULT_SETTINGS key"
  using map_of_rev_None [OF assms] by (simp add: map_of_dict_merge map_add_def)

lemma merged_present:
  assumes "map_of (rev items) key = Some v"
  shows "map_of (dict_merge DEFAULT_SETTINGS items) key = Some v"
  using assms by (simp add: map_of_dict_merge map_add_def)

text \<open>
  C8. When the settings file holds a JSON object, \<^verbatim>\<open>load\<close> returns the defaults merged with
  the members of the object and keeps that record in memory. In it, each of the keys
  language, interval and muted that the file does not have has its default ("en", 60,
  false), and every key of the file, the three known ones or any other, has its persisted
  value (the last one, should the file repeat the key). The next successful save writes
  this whole record back.
\<close>

theorem load_merges_defaults:
  assumes "config_file dk = Holds (PDict items)"
  shows "load cm dk =
           (Inr (dict_merge DEFAULT_SETTINGS items),
            cm\<lparr>settings := dict_merge DEFAULT_SETTINGS items\<rparr>, dk, [Log INFO Config_loaded])
       \<and> (''language'' \<notin> fst ` set items \<longrightarrow>
            get_setting (fst (snd (load cm dk))) ''language'' dflt = PStr ''en'')
       \<and> (''interval'' \<notin> fst ` set items \<longrightarrow>
            get_setting (fst (snd (load cm dk))) ''interval'' dflt = PInt 60)
       \<and> (''muted'' \<notin> fst ` set items \<longrightarrow>
            get_setting (fst (snd (load cm dk))) ''muted'' dflt = PBool False)
       \<and> (\<forall>key v. map_of (rev items) key = Some v \<longrightarrow>
            get_setting (fst (snd (load cm dk))) key dflt = v)
       \<and> (distinct (map fst items) \<longrightarrow>
            (\<forall>(key, v) \<in> set items. get_setting (fst (snd (load cm dk))) key dflt = v))
       \<and> (writing dk = Writes \<longrightarrow>
            config_file (fst (snd (snd (save None (fst (snd (load cm dk))) dk))))
            = Holds (PDict (dict_merge DEFAULT_SETTINGS items)))"
proof -
  note l = load_object [OF assms, of cm]
  have s: "settings (fst (snd (load cm dk))) = dict_merge DEFAULT_SETTINGS items"
    by (simp add: l)
  have lang: "''language'' \<notin> fst ` set items \<longrightarrow>
            get_setting (fst (snd (load cm dk))) ''language'' dflt = PStr ''en''"
    using merged_missing [of "''language''" items]
    by (simp add: get_setting_def s dict_get_def DEFAULT_SETTINGS_def)
  have intv: "''interval'' \<notin> fst ` set items \<longrightarrow>
            get_setting (fst (snd (load cm dk))) ''interval'' dflt = PInt 60"
    using merged_missing [of "''interval''" items]
    by (simp add: get_setting_def s dict_get_def DEFAULT_SETTINGS_def)
  have mut: "''muted'' \<notin> fst ` set items \<longrightarrow>
            get_setting (fst (snd (load cm dk))) ''muted'' dflt = PBool False"
    using merged_missing [of "''muted''" items]
    by (simp add: get_setting_def s dict_get_def DEFAULT_SETTINGS_def)
  have kept: "\<forall>key v. map_of (rev items) key = Some v \<longrightarrow>
            get_setting (fst (snd (load cm dk))) key dflt = v"
    using merged_present [of items]
    by (simp add: get_setting_def s dict_get_def)
  have kept_distinct: "distinct (map fst items) \<longrightarrow>
            (\<forall>(key, v) \<in> set items. get_setting (fst (snd (load cm dk))) key dflt = v)"
  proof
    assume d: "distinct (map fst items)"
    show "\<forall>(key, v) \<in> set items. get_setting (fst (snd (load cm dk))) key dflt = v"
    proof (clarify)
      fix key v
      assume "(key, v) \<in> set items"
      with d have "map_of items key = Some v" by simp
      with d have "map_of (rev items) key = Some v" by (simp add: map_of_rev_distinct)
      with kept show "get_setting (fst (snd (load cm dk))) key dflt = v" by blast
    qed
  qed
  have written: "writing dk = Writes \<longrightarrow>
            config_file (fst (snd (snd (save None (fst (snd (load cm dk))) dk))))
            = Holds (PDict (dict_merge DEFAULT_SETTINGS items))"
    by (simp add: l save_def)
  from l lang intv mut kept kept_distinct written show ?thesis by blast
qed

theorem load_merges_defaults_witness:
  "config_file \<lparr>config_file = Holds (PDict [(''language'', PStr ''bn''), (''theme'', PStr ''dark'')]),
                 writing = Writes\<rparr>
     = Holds (PDict [(''language'', PStr ''bn''), (''theme'', PStr ''dark'')])
   \<and> fst (load \<lparr>settings = []\<rparr>
        \<lparr>config_file = Holds (PDict [(''language'', PStr ''bn''), (''theme'', PStr ''dark'')]),
         writing = Writes\<rparr>)
      = Inr [(''language'', PStr ''bn''), (''interval'', PInt 60), (''muted'', PBool False),
             (''theme'', PStr ''dark'')]"
proof -
  have c: "config_file
      \<lparr>config_file = Holds (PDict [(''language'', PStr ''bn''), (''theme'', PStr ''dark'')]),
       writing = Writes\<rparr>
     = Holds (PDict [(''language'', PStr ''bn''), (''theme'', PStr ''dark'')])" by simp
  have m: "dict_merge DEFAULT_SETTINGS [(''language'', PStr ''bn''), (''theme'', PStr ''dark'')]
      = [(''language'', PStr ''bn''), (''interval'', PInt 60), (''muted'', PBool False),
         (''theme'', PStr ''dark'')]"
    by (simp add: dict_merge_def DEFAULT_SETTINGS_def)
  from load_merges_defaults [OF c, of "\<lparr>settings = []\<rparr>"] m
  show ?thesis by simp
qed

section \<open>C9: a failed write\<close>

text \<open>
  C9. When the write raises an I/O error, \<^verbatim>\<open>save\<close> returns \<^verbatim>\<open>False\<close> and does not raise, and
  the in-memory record is the one being saved: the argument when one is given, the
  record as it was otherwise. \<^verbatim>\<open>set\<close> stores the value in memory whatever the write does
  (here \<open>dk'\<close> is any disk), and with a failing write it still returns normally.
\<close>

theorem save_failure:
  assumes "writing dk = Write_raises OSError left"
  shows "save (Some s) cm dk =
           (Inr False, cm\<lparr>settings := s\<rparr>, dk\<lparr>config_file := left\<rparr>,
            [Log ERROR (Save_failed OSError)])
       \<and> save None cm dk =
           (Inr False, cm, dk\<lparr>config_file := left\<rparr>, [Log ERROR (Save_failed OSError)])
       \<and> settings (fst (snd (set_setting key v auto_save cm dk'))) = dict_set (settings cm) key v
       \<and> get_setting (fst (snd (set_setting key v auto_save cm dk'))) key dflt = v
       \<and> fst (set_setting key v auto_save cm dk) = Inr ()"
proof -
  have a: "save (Some s) cm dk =
           (Inr False, cm\<lparr>settings := s\<rparr>, dk\<lparr>config_file := left\<rparr>,
            [Log ERROR (Save_failed OSError)])"
    and b: "save None cm dk =
           (Inr False, cm, dk\<lparr>config_file := left\<rparr>, [Log ERROR (Save_failed OSError)])"
    by (simp_all add: save_os_error [OF assms])
  have c: "settings (fst (snd (set_setting key v auto_save cm dk'))) = dict_set (settings cm) key v"
    by (cases "writing dk'") (simp_all add: set_setting_def save_def Let_def)
  have "map_of (dict_set (settings cm) key v) key = Some v"
    by (simp add: map_of_dict_set)
  then have d: "get_setting (fst (snd (set_setting key v auto_save cm dk'))) key dflt = v"
    by (simp add: get_setting_def c dict_get_def)
  have e: "fst (set_setting key v auto_save cm dk) = Inr ()"
    by (simp add: set_setting_def save_os_error [OF assms] Let_def)
  from a b c d e show ?thesis by blast
qed

theorem save_failure_witness:
  "writing \<lparr>config_file = Absent, writing = Write_raises OSError Absent\<rparr>
     = Write_raises OSError Absent
   \<and> save (Some [(''language'', PStr ''bn''), (''interval'', PInt 30), (''muted'', PBool True)])
        \<lparr>settings = DEFAULT_SETTINGS\<rparr>
        \<lparr>config_file = Absent, writing = Write_raises OSError Absent\<rparr>
      = (Inr False,
         \<lparr>settings = [(''language'', PStr ''bn''), (''interval'', PInt 30), (''muted'', PBool True)]\<rparr>,
         \<lparr>config_file = Absent, writing = Write_raises OSError Absent\<rparr>,
         [Log ERROR (Save_failed OSError)])
   \<and> settings (fst (snd (set_setting ''muted'' (PBool True) True \<lparr>settings = DEFAULT_SETTINGS\<rparr>
        \<lparr>config_file = Absent, writing = Write_raises OSError Absent\<rparr>)))
      = [(''language'', PStr ''en''), (''interval'', PInt 60), (''muted'', PBool True)]"
proof -
  have w: "writing \<lparr>config_file = Absent, writing = Write_raises OSError Absent\<rparr>
     = Write_raises OSError Absent" by simp
  from save_failure [OF w, of
      "[(''language'', PStr ''bn''), (''interval'', PInt 30), (''muted'', PBool True)]"
      "\<lparr>settings = DEFAULT_SETTINGS\<rparr>" "''muted''" "PBool True" True
      "\<lparr>config_file = Absent, writing = Write_raises OSError Absent\<rparr>"]
  show ?thesis by (simp add: DEFAULT_SETTINGS_def)
qed

end
